theory Spec2Isabelle
  imports Main "HOL-Library.Word"
begin

unbundle bit_operations_syntax

section \<open>Data model of the contract \<^verbatim>\<open>BlindEscrow\<close>\<close>

text \<open>
  A \<^verbatim>\<open>ByteString\<close> of scrypt-ts is a hex string denoting a sequence of bytes; it is
  modelled as the list of its bytes. \<^verbatim>\<open>PubKey\<close>, \<^verbatim>\<open>PubKeyHash\<close> and \<^verbatim>\<open>Sig\<close> are
  byte strings with another name, \<^verbatim>\<open>bigint\<close> is \<open>int\<close>. \<^verbatim>\<open>Signature\<close> and \<^verbatim>\<open>Point\<close> are
  the structs of scrypt-ts-lib (two big integers each).
\<close>

type_synonym byte = "8 word"
type_synonym ByteString = "byte list"
type_synonym PubKey = ByteString
type_synonym PubKeyHash = ByteString
type_synonym Sig = ByteString

datatype Signature = Signature (sig_r: int) (sig_s: int)

datatype Point = Point (pt_x: int) (pt_y: int)

text \<open>The four \<^verbatim>\<open>@prop()\<close> fields of the class (source lines 35--45).\<close>

record BlindEscrow =
  seller :: PubKeyHash
  buyer :: PubKeyHash
  arbiter :: PubKeyHash
  escrowNonce :: ByteString

text \<open>The constructor (source lines 47--58) stores its four arguments.\<close>

definition new_BlindEscrow ::
  "PubKeyHash \<Rightarrow> PubKeyHash \<Rightarrow> PubKeyHash \<Rightarrow> ByteString \<Rightarrow> BlindEscrow" where
  "new_BlindEscrow seller0 buyer0 arbiter0 escrowNonce0 =
     \<lparr>seller = seller0, buyer = buyer0, arbiter = arbiter0, escrowNonce = escrowNonce0\<rparr>"

text \<open>The action codes (source lines 30--33).\<close>

definition RELEASE_BY_SELLER :: int where "RELEASE_BY_SELLER = 0"
definition RELEASE_BY_ARBITER :: int where "RELEASE_BY_ARBITER = 1"
definition RETURN_BY_BUYER :: int where "RETURN_BY_BUYER = 2"
definition RETURN_BY_ARBITER :: int where "RETURN_BY_ARBITER = 3"

text \<open>
  The ways a public method can fail. Every \<^verbatim>\<open>assert\<close> of the source is one constructor,
  named after its message: \<^verbatim>\<open>'incorrect type'\<close>, \<^verbatim>\<open>'incorrect price'\<close>,
  \<^verbatim>\<open>'Wrong spender pub key'\<close>, \<^verbatim>\<open>'Wrong oracle pub key'\<close>, \<^verbatim>\<open>'Oracle sig invalid'\<close>,
  \<^verbatim>\<open>'Spender sig invalid'\<close>. No other statement of the methods raises.
\<close>

datatype error =
    Incorrect_type
  | Incorrect_price
  | Wrong_spender_pub_key
  | Wrong_oracle_pub_key
  | Oracle_sig_invalid
  | Spender_sig_invalid

section \<open>The imported primitives\<close>

text \<open>
  The cryptographic primitives are imported from scrypt-ts and scrypt-ts-lib and are
  not part of the repository. They are parameters of the model: \<open>hash160\<close> and
  \<open>hash256\<close> map bytes to bytes, \<open>verifySig\<close> is \<^verbatim>\<open>SECP256K1.verifySig\<close>,
  \<open>pubKey2Point\<close> is \<^verbatim>\<open>SECP256K1.pubKey2Point\<close>, and \<open>checkSig\<close> is \<^verbatim>\<open>this.checkSig\<close>
  (the signature check against the spending transaction, which is fixed during one
  evaluation).
\<close>

record externals =
  hash160 :: "ByteString \<Rightarrow> ByteString"
  hash256 :: "ByteString \<Rightarrow> ByteString"
  verifySig :: "int \<Rightarrow> Signature \<Rightarrow> Point \<Rightarrow> bool"
  pubKey2Point :: "PubKey \<Rightarrow> Point"
  checkSig :: "Sig \<Rightarrow> PubKey \<Rightarrow> bool"

text \<open>
  The byte-string helpers of scrypt-ts are deterministic and are written out.

  \<^verbatim>\<open>int2ByteString(n)\<close> called with one argument, as the contract and its test call
  it (the optional second argument would fix the width), returns the minimal
  sign-magnitude little-endian encoding of \<open>n\<close> (the number format of the script VM): the bytes of \<open>|n|\<close>, lowest first, with no leading zero; the top bit of
  the last byte is the sign, and one more byte is added when that bit is already used by
  the magnitude. The number zero is the empty byte string.
\<close>

fun magnitude_bytes :: "nat \<Rightarrow> ByteString" where
  "magnitude_bytes n =
     (if n = 0 then [] else word_of_nat (n mod 256) # magnitude_bytes (n div 256))"

declare magnitude_bytes.simps [simp del]

definition int2ByteString :: "int \<Rightarrow> ByteString" where
  "int2ByteString n =
     (let m = magnitude_bytes (nat \<bar>n\<bar>) in
      if m = [] then []
      else if last m AND 0x80 \<noteq> 0 then m @ [if n < 0 then 0x80 else 0x00]
      else if n < 0 then butlast m @ [last m OR 0x80]
      else m)"

text \<open>
  \<^verbatim>\<open>byteString2Int\<close> reads the same format back: the bytes are a little-endian
  magnitude whose last byte holds the sign in its top bit.
\<close>

fun le_value :: "ByteString \<Rightarrow> int" where
  "le_value [] = 0"
| "le_value (b # bs) = uint b + 256 * le_value bs"

definition byteString2Int :: "ByteString \<Rightarrow> int" where
  "byteString2Int bs =
     (if bs = [] then 0
      else let m = last bs;
               mag = le_value (butlast bs @ [m AND 0x7F])
           in if m AND 0x80 \<noteq> 0 then - mag else mag)"

text \<open>
  \<^verbatim>\<open>reverseByteString(b, size)\<close> returns the bytes of \<open>b\<close> in reverse order; \<open>size\<close> is
  the length the caller announces (32 at the only call site, the length of a double
  SHA-256 digest).
\<close>

definition reverseByteString :: "ByteString \<Rightarrow> int \<Rightarrow> ByteString" where
  "reverseByteString b size0 = rev b"

section \<open>The public methods\<close>

text \<open>
  \<^verbatim>\<open>buyCrops\<close> and \<^verbatim>\<open>sellCrops\<close> (source lines 59--67): one assertion each.
\<close>

definition buyCrops :: "externals \<Rightarrow> BlindEscrow \<Rightarrow> ByteString \<Rightarrow> error + unit" where
  "buyCrops c this crops =
     (if hash256 c crops = crops then Inr () else Inl Incorrect_type)"

definition sellCrops :: "externals \<Rightarrow> BlindEscrow \<Rightarrow> ByteString \<Rightarrow> error + unit" where
  "sellCrops c this crops =
     (if hash256 c crops = crops then Inr () else Inl Incorrect_price)"

text \<open>
  The first part of \<^verbatim>\<open>spend\<close> (source lines 77--100). The variables \<open>spender\<close> and
  \<open>oracle\<close> are declared with twenty zero bytes and then assigned by a chain of
  comparisons of \<open>action\<close>. The last branch calls \<^verbatim>\<open>exit(false)\<close>; the call returns
  and the method goes on with the statements after the chain, so on that branch the
  two variables keep the value they were declared with.
\<close>

definition load_addresses :: "BlindEscrow \<Rightarrow> int \<Rightarrow> PubKeyHash \<times> PubKeyHash" where
  "load_addresses this action =
     (let spender = replicate 20 0x00;
          oracle = replicate 20 0x00
      in if action = RELEASE_BY_SELLER then (buyer this, seller this)
         else if action = RELEASE_BY_ARBITER then (buyer this, arbiter this)
         else if action = RETURN_BY_BUYER then (seller this, buyer this)
         else if action = RETURN_BY_ARBITER then (seller this, arbiter this)
         else (spender, oracle))"

text \<open>Source line 107: the message the oracle signs.\<close>

definition oracleMsg :: "BlindEscrow \<Rightarrow> int \<Rightarrow> ByteString" where
  "oracleMsg this action = escrowNonce this @ int2ByteString action"

text \<open>Source lines 108--110: the integer the oracle signature is verified against.\<close>

definition hashInt :: "externals \<Rightarrow> BlindEscrow \<Rightarrow> int \<Rightarrow> int" where
  "hashInt c this action =
     byteString2Int (reverseByteString (hash256 c (oracleMsg this action)) 32 @ [0x00])"

text \<open>
  \<^verbatim>\<open>spend\<close> (source lines 69--122). After the two variables are loaded, the four
  assertions are evaluated in the order of the source, for every action; the first one
  that fails is the result.
\<close>

definition spend ::
  "externals \<Rightarrow> BlindEscrow \<Rightarrow> Sig \<Rightarrow> PubKey \<Rightarrow> Signature \<Rightarrow> PubKey \<Rightarrow> int \<Rightarrow> error + unit" where
  "spend c this spenderSig spenderPubKey oracleSig oraclePubKey action =
     (case load_addresses this action of
        (spender, oracle) \<Rightarrow>
          if hash160 c spenderPubKey \<noteq> spender then Inl Wrong_spender_pub_key
          else if hash160 c oraclePubKey \<noteq> oracle then Inl Wrong_oracle_pub_key
          else if \<not> verifySig c (hashInt c this action) oracleSig (pubKey2Point c oraclePubKey)
            then Inl Oracle_sig_invalid
          else if \<not> checkSig c spenderSig spenderPubKey then Inl Spender_sig_invalid
          else Inr ())"

text \<open>
  Every public method reads the fields of the instance and assigns to none of them
  (they are \<^verbatim>\<open>@prop()\<close> fields without the stateful flag). A call of a public method is
  modelled with explicit state: \<open>invoke\<close> returns the result of the method together
  with the instance as the method leaves it.
\<close>

datatype call =
    BuyCrops ByteString
  | SellCrops ByteString
  | Spend Sig PubKey Signature PubKey int

fun invoke :: "externals \<Rightarrow> BlindEscrow \<Rightarrow> call \<Rightarrow> (error + unit) \<times> BlindEscrow" where
  "invoke c this (BuyCrops crops) = (buyCrops c this crops, this)"
| "invoke c this (SellCrops crops) = (sellCrops c this crops, this)"
| "invoke c this (Spend spenderSig spenderPubKey oracleSig oraclePubKey action) =
     (spend c this spenderSig spenderPubKey oracleSig oraclePubKey action, this)"

section \<open>The identity table of the specification\<close>

text \<open>
  The table of section 3 of the specification, written down as it stands there: each
  action names the party whose hash the spender key must have and the party whose hash
  the oracle key must have. It is compared with \<open>load_addresses\<close> below.
\<close>

datatype party = Seller | Buyer | Arbiter

fun party_hash :: "BlindEscrow \<Rightarrow> party \<Rightarrow> PubKeyHash" where
  "party_hash this Seller = seller this"
| "party_hash this Buyer = buyer this"
| "party_hash this Arbiter = arbiter this"

definition identity_table :: "(int \<times> party \<times> party) list" where
  "identity_table =
     [(0, Buyer, Seller), (1, Buyer, Arbiter), (2, Seller, Buyer), (3, Seller, Arbiter)]"

definition required_identities :: "BlindEscrow \<Rightarrow> int \<Rightarrow> (PubKeyHash \<times> PubKeyHash) option" where
  "required_identities this action =
     map_option (\<lambda>(sp, orc). (party_hash this sp, party_hash this orc))
       (map_of identity_table action)"

section \<open>Reading a digest as a number\<close>

text \<open>The unsigned big-endian value of a byte string (highest byte first).\<close>

definition be_value :: "ByteString \<Rightarrow> int" where
  "be_value bs = foldl (\<lambda>acc b. 256 * acc + uint b) 0 bs"

section \<open>A concrete instance\<close>

text \<open>
  Stand-ins for the imported primitives, used to evaluate the methods on concrete
  inputs: digests are the message cut or zero-padded to the digest length, a stamp
  \<open>Signature r s\<close> is accepted for the integer \<open>r\<close> under the key whose point has the
  abscissa \<open>s\<close>, and a transaction signature is accepted when it repeats the key.
\<close>

definition demo_externals :: externals where
  "demo_externals =
     \<lparr>hash160 = (\<lambda>m. take 20 (m @ replicate 20 0)),
      hash256 = (\<lambda>m. take 32 (m @ replicate 32 0)),
      verifySig = (\<lambda>z sg pt. sig_r sg = z \<and> sig_s sg = pt_x pt),
      pubKey2Point = (\<lambda>k. Point (le_value k) 0),
      checkSig = (\<lambda>sg k. sg = k)\<rparr>"

text \<open>Three short keys, named as in the repository's test.\<close>

definition sellerPubKey :: PubKey where "sellerPubKey = [0x04, 0x51]"
definition buyerPubKey :: PubKey where "buyerPubKey = [0x04, 0x52]"
definition arbiterPubKey :: PubKey where "arbiterPubKey = [0x04, 0x53]"

text \<open>The nonce of the repository's test, \<^verbatim>\<open>001122334455aabbcc\<close>.\<close>

definition test_nonce :: ByteString where
  "test_nonce = [0x00, 0x11, 0x22, 0x33, 0x44, 0x55, 0xAA, 0xBB, 0xCC]"

definition demo_escrow :: BlindEscrow where
  "demo_escrow =
     new_BlindEscrow (hash160 demo_externals sellerPubKey) (hash160 demo_externals buyerPubKey)
       (hash160 demo_externals arbiterPubKey) test_nonce"

text \<open>The stamp of the stand-in scheme by the key \<open>k\<close> for an action of an instance.\<close>

definition demo_stamp :: "BlindEscrow \<Rightarrow> int \<Rightarrow> PubKey \<Rightarrow> Signature" where
  "demo_stamp this action k =
     Signature (hashInt demo_externals this action) (pt_x (pubKey2Point demo_externals k))"

text \<open>
  A second instance, whose nonce is the nonce of \<open>demo_escrow\<close> followed by the byte
  01, and in which the owner of \<open>arbiterPubKey\<close> is the seller.
\<close>

definition longer_escrow :: BlindEscrow where
  "longer_escrow =
     new_BlindEscrow (hash160 demo_externals arbiterPubKey) (hash160 demo_externals buyerPubKey)
       (hash160 demo_externals sellerPubKey) (test_nonce @ [0x01])"


definition zero_hash_externals :: externals where
  "zero_hash_externals = demo_externals\<lparr>hash160 := (\<lambda>k. replicate 20 0x00)\<rparr>"

section \<open>Facts about the byte-string helpers\<close>

text \<open>
  The encodings of the four action codes: zero is the empty string, the other three
  are one byte.
\<close>

lemma int2ByteString_codes:
  "int2ByteString 0 = []" "int2ByteString 1 = [1]" "int2ByteString 2 = [2]" "int2ByteString 3 = [3]"
  by (simp_all add: int2ByteString_def magnitude_bytes.simps Let_def)

lemma int2ByteString_valid:
  "a \<in> {0, 1, 2, 3} \<Longrightarrow> int2ByteString a = (if a = 0 then [] else [word_of_int a])"
  by (auto simp: int2ByteString_codes)

text \<open>
  A little-endian value determines its bytes once the length is known, and the
  value of the reversed string is the big-endian value.
\<close>

lemma le_value_append: "le_value (xs @ ys) = le_value xs + 256 ^ length xs * le_value ys"
  by (induction xs) (simp_all add: algebra_simps)

lemma be_value_snoc: "be_value (bs @ [b]) = 256 * be_value bs + uint b"
  by (simp add: be_value_def)

lemma le_value_rev: "le_value (rev bs) = be_value bs"
proof (induction bs rule: rev_induct)
  case Nil
  show ?case by (simp add: be_value_def)
next
  case (snoc b bs)
  then show ?case by (simp add: be_value_snoc)
qed

lemma le_value_bound: "0 \<le> le_value bs \<and> le_value bs < 256 ^ length bs"
proof (induction bs)
  case Nil show ?case by simp
next
  case (Cons b bs)
  have "uint b < 256" "0 \<le> uint b" using uint_lt2p [of b] by simp_all
  with Cons show ?case by simp
qed



text \<open>
  The appended zero byte carries a clear sign bit, so \<open>byteString2Int\<close> returns the
  magnitude of the bytes before it.
\<close>

lemma byteString2Int_pad: "byteString2Int (bs @ [0x00]) = le_value bs"
  by (simp add: byteString2Int_def le_value_append)

lemma hashInt_be_value: "hashInt c this action = be_value (hash256 c (oracleMsg this action))"
  by (simp add: hashInt_def reverseByteString_def byteString2Int_pad le_value_rev)


section \<open>Facts about the methods\<close>

lemma load_addresses_cases:
  "load_addresses this action =
     (if action = 0 then (buyer this, seller this)
      else if action = 1 then (buyer this, arbiter this)
      else if action = 2 then (seller this, buyer this)
      else if action = 3 then (seller this, arbiter this)
      else (replicate 20 0x00, replicate 20 0x00))"
  by (simp add: load_addresses_def RELEASE_BY_SELLER_def RELEASE_BY_ARBITER_def
      RETURN_BY_BUYER_def RETURN_BY_ARBITER_def)

lemma required_identities_cases:
  "required_identities this action =
     (if action = 0 then Some (buyer this, seller this)
      else if action = 1 then Some (buyer this, arbiter this)
      else if action = 2 then Some (seller this, buyer this)
      else if action = 3 then Some (seller this, arbiter this)
      else None)"
  by (simp add: required_identities_def identity_table_def)

text \<open>
  Two instances with distinct nonces have the same oracle message for two valid
  actions in one case only: one action is 0 and its nonce is the other nonce followed
  by the byte of the other action.
\<close>

lemma oracleMsg_eq_iff:
  assumes "escrowNonce X \<noteq> escrowNonce Y" and "a \<in> {0, 1, 2, 3}" and "b \<in> {0, 1, 2, 3}"
  shows "(oracleMsg X a = oracleMsg Y b) =
           ((a = 0 \<and> b \<noteq> 0 \<and> escrowNonce X = escrowNonce Y @ int2ByteString b) \<or>
            (b = 0 \<and> a \<noteq> 0 \<and> escrowNonce Y = escrowNonce X @ int2ByteString a))"
proof (cases "a = 0")
  case a0: True
  show ?thesis
  proof (cases "b = 0")
    case True
    with a0 assms(1) show ?thesis by (simp add: oracleMsg_def int2ByteString_codes)
  next
    case False
    with a0 show ?thesis by (simp add: oracleMsg_def int2ByteString_codes)
  qed
next
  case a1: False
  show ?thesis
  proof (cases "b = 0")
    case True
    with a1 show ?thesis by (auto simp: oracleMsg_def int2ByteString_codes)
  next
    case False
    with a1 assms show ?thesis by (simp add: oracleMsg_def int2ByteString_valid)
  qed
qed


text \<open>
  The stand-in primitives: a stamp verifies for its own integer, a transaction
  signature that repeats the key is accepted, digests have 32 bytes.
\<close>

lemma demo_stamp_verifies:
  "verifySig demo_externals (hashInt demo_externals this action) (demo_stamp this action k)
     (pubKey2Point demo_externals k)"
  by (simp add: demo_externals_def demo_stamp_def)

lemma demo_checkSig: "checkSig demo_externals k k"
  by (simp add: demo_externals_def)

lemma demo_hash256_length: "length (hash256 demo_externals m) = 32"
  by (simp add: demo_externals_def)

section \<open>Authorized spends\<close>

text \<open>
  Claim C1. For each of the four actions: when the spender public key hashes to the
  identity the action requires of the spender, the oracle public key hashes to the
  identity it requires of the oracle, the oracle signature verifies under the oracle
  public key for the integer derived from the oracle message, and the spender signature
  passes the transaction signature check, then \<open>spend\<close> succeeds.
\<close>

theorem spend_authorizes:
  assumes "(action = RELEASE_BY_SELLER \<and> hash160 c spenderPubKey = buyer this
              \<and> hash160 c oraclePubKey = seller this)
         \<or> (action = RELEASE_BY_ARBITER \<and> hash160 c spenderPubKey = buyer this
              \<and> hash160 c oraclePubKey = arbiter this)
         \<or> (action = RETURN_BY_BUYER \<and> hash160 c spenderPubKey = seller this
              \<and> hash160 c oraclePubKey = buyer this)
         \<or> (action = RETURN_BY_ARBITER \<and> hash160 c spenderPubKey = seller this
              \<and> hash160 c oraclePubKey = arbiter this)"
    and "verifySig c (hashInt c this action) oracleSig (pubKey2Point c oraclePubKey)"
    and "checkSig c spenderSig spenderPubKey"
  shows "spend c this spenderSig spenderPubKey oracleSig oraclePubKey action = Inr ()"
proof -
  have "load_addresses this action = (hash160 c spenderPubKey, hash160 c oraclePubKey)"
    using assms(1)
    by (auto simp: load_addresses_cases RELEASE_BY_SELLER_def RELEASE_BY_ARBITER_def
        RETURN_BY_BUYER_def RETURN_BY_ARBITER_def)
  with assms(2,3) show ?thesis
    by (simp add: spend_def)
qed

text \<open>
  The four scenarios of the repository's test on the concrete instance: buyer and
  seller stamp, buyer and arbiter stamp, seller and buyer stamp, seller and arbiter
  stamp.
\<close>

theorem spend_authorizes_witness:
  "spend demo_externals demo_escrow buyerPubKey buyerPubKey
     (demo_stamp demo_escrow 0 sellerPubKey) sellerPubKey 0 = Inr ()
   \<and> spend demo_externals demo_escrow buyerPubKey buyerPubKey
     (demo_stamp demo_escrow 1 arbiterPubKey) arbiterPubKey 1 = Inr ()
   \<and> spend demo_externals demo_escrow sellerPubKey sellerPubKey
     (demo_stamp demo_escrow 2 buyerPubKey) buyerPubKey 2 = Inr ()
   \<and> spend demo_externals demo_escrow sellerPubKey sellerPubKey
     (demo_stamp demo_escrow 3 arbiterPubKey) arbiterPubKey 3 = Inr ()"
proof (intro conjI)
  show "spend demo_externals demo_escrow buyerPubKey buyerPubKey
     (demo_stamp demo_escrow 0 sellerPubKey) sellerPubKey 0 = Inr ()"
    by (rule spend_authorizes)
      (simp_all add: demo_stamp_verifies demo_checkSig demo_escrow_def new_BlindEscrow_def
        RELEASE_BY_SELLER_def)
  show "spend demo_externals demo_escrow buyerPubKey buyerPubKey
     (demo_stamp demo_escrow 1 arbiterPubKey) arbiterPubKey 1 = Inr ()"
    by (rule spend_authorizes)
      (simp_all add: demo_stamp_verifies demo_checkSig demo_escrow_def new_BlindEscrow_def
        RELEASE_BY_ARBITER_def)
  show "spend demo_externals demo_escrow sellerPubKey sellerPubKey
     (demo_stamp demo_escrow 2 buyerPubKey) buyerPubKey 2 = Inr ()"
    by (rule spend_authorizes)
      (simp_all add: demo_stamp_verifies demo_checkSig demo_escrow_def new_BlindEscrow_def
        RETURN_BY_BUYER_def)
  show "spend demo_externals demo_escrow sellerPubKey sellerPubKey
     (demo_stamp demo_escrow 3 arbiterPubKey) arbiterPubKey 3 = Inr ()"
    by (rule spend_authorizes)
      (simp_all add: demo_stamp_verifies demo_checkSig demo_escrow_def new_BlindEscrow_def
        RETURN_BY_ARBITER_def)
qed

section \<open>The action table\<close>

text \<open>
  Claim C2. The pair of identities that \<open>spend\<close> loads for an action is the row of
  the table of the specification: ReleaseBySeller requires the buyer as spender and
  the seller as oracle, ReleaseByArbiter the buyer and the arbiter, ReturnByBuyer the
  seller and the buyer, ReturnByArbiter the seller and the arbiter. For every instance
  and every request with one of the four actions, \<open>spend\<close> is the sequence of checks
  against the row of the action.
\<close>

theorem spend_uses_identity_table:
  "load_addresses this RELEASE_BY_SELLER = (buyer this, seller this)
   \<and> load_addresses this RELEASE_BY_ARBITER = (buyer this, arbiter this)
   \<and> load_addresses this RETURN_BY_BUYER = (seller this, buyer this)
   \<and> load_addresses this RETURN_BY_ARBITER = (seller this, arbiter this)
   \<and> (action \<in> {0, 1, 2, 3}
        \<longrightarrow> required_identities this action = Some (load_addresses this action))
   \<and> (required_identities this action = Some (spender, oracle)
        \<longrightarrow> spend c this spenderSig spenderPubKey oracleSig oraclePubKey action =
             (if hash160 c spenderPubKey \<noteq> spender then Inl Wrong_spender_pub_key
              else if hash160 c oraclePubKey \<noteq> oracle then Inl Wrong_oracle_pub_key
              else if \<not> verifySig c (hashInt c this action) oracleSig
                         (pubKey2Point c oraclePubKey)
                then Inl Oracle_sig_invalid
              else if \<not> checkSig c spenderSig spenderPubKey then Inl Spender_sig_invalid
              else Inr ()))"
proof (intro conjI impI)
  show "load_addresses this RELEASE_BY_SELLER = (buyer this, seller this)"
    and "load_addresses this RELEASE_BY_ARBITER = (buyer this, arbiter this)"
    and "load_addresses this RETURN_BY_BUYER = (seller this, buyer this)"
    and "load_addresses this RETURN_BY_ARBITER = (seller this, arbiter this)"
    by (simp_all add: load_addresses_cases RELEASE_BY_SELLER_def RELEASE_BY_ARBITER_def
        RETURN_BY_BUYER_def RETURN_BY_ARBITER_def)
next
  assume "action \<in> {0, 1, 2, 3}"
  then show "required_identities this action = Some (load_addresses this action)"
    by (auto simp: load_addresses_cases required_identities_cases)
next
  assume r: "required_identities this action = Some (spender, oracle)"
  then have "load_addresses this action = (spender, oracle)"
    by (simp add: load_addresses_cases required_identities_cases split: if_splits)
  then show "spend c this spenderSig spenderPubKey oracleSig oraclePubKey action =
             (if hash160 c spenderPubKey \<noteq> spender then Inl Wrong_spender_pub_key
              else if hash160 c oraclePubKey \<noteq> oracle then Inl Wrong_oracle_pub_key
              else if \<not> verifySig c (hashInt c this action) oracleSig
                         (pubKey2Point c oraclePubKey)
                then Inl Oracle_sig_invalid
              else if \<not> checkSig c spenderSig spenderPubKey then Inl Spender_sig_invalid
              else Inr ())"
    by (simp add: spend_def)
qed

text \<open>
  The row of ReturnByBuyer on the concrete instance: the seller spends with the
  buyer's stamp, and the buyer's key in the place of the seller's is refused.
\<close>

theorem spend_uses_identity_table_witness:
  "(2::int) \<in> {0, 1, 2, 3}
   \<and> required_identities demo_escrow 2 = Some (seller demo_escrow, buyer demo_escrow)
   \<and> load_addresses demo_escrow 2 = (seller demo_escrow, buyer demo_escrow)
   \<and> spend demo_externals demo_escrow sellerPubKey sellerPubKey
        (demo_stamp demo_escrow 2 buyerPubKey) buyerPubKey 2 = Inr ()
   \<and> spend demo_externals demo_escrow buyerPubKey buyerPubKey
        (demo_stamp demo_escrow 2 buyerPubKey) buyerPubKey 2 = Inl Wrong_spender_pub_key"
proof -
  have v: "(2::int) \<in> {0, 1, 2, 3}"
    by simp
  have r: "required_identities demo_escrow 2 = Some (seller demo_escrow, buyer demo_escrow)"
    by (simp add: required_identities_cases)
  have hs: "hash160 demo_externals sellerPubKey = seller demo_escrow"
    and hb: "hash160 demo_externals buyerPubKey = buyer demo_escrow"
    by (simp_all add: demo_escrow_def new_BlindEscrow_def)
  have d: "buyer demo_escrow \<noteq> seller demo_escrow"
    by code_simp
  note t = spend_uses_identity_table [of demo_escrow 2 "seller demo_escrow" "buyer demo_escrow"]
  from t v r have l: "load_addresses demo_escrow 2 = (seller demo_escrow, buyer demo_escrow)"
    by simp
  from t [of demo_externals sellerPubKey sellerPubKey "demo_stamp demo_escrow 2 buyerPubKey"
      buyerPubKey] r hs hb
  have ok: "spend demo_externals demo_escrow sellerPubKey sellerPubKey
        (demo_stamp demo_escrow 2 buyerPubKey) buyerPubKey 2 = Inr ()"
    by (simp add: demo_stamp_verifies demo_checkSig)
  from t [of demo_externals buyerPubKey buyerPubKey "demo_stamp demo_escrow 2 buyerPubKey"
      buyerPubKey] r hb d
  have ko: "spend demo_externals demo_escrow buyerPubKey buyerPubKey
        (demo_stamp demo_escrow 2 buyerPubKey) buyerPubKey 2 = Inl Wrong_spender_pub_key"
    by simp
  from v r l ok ko show ?thesis
    by simp
qed

section \<open>Invalid action codes\<close>

text \<open>
  For an action code outside \<open>{0, 1, 2, 3}\<close> the method goes on after
  \<^verbatim>\<open>exit(false)\<close>: it is the sequence of the four checks, with twenty zero bytes as
  the required hash of both keys.
\<close>

lemma spend_outside_table:
  "action \<notin> {0, 1, 2, 3} \<Longrightarrow>
   spend c this spenderSig spenderPubKey oracleSig oraclePubKey action =
     (if hash160 c spenderPubKey \<noteq> replicate 20 0x00 then Inl Wrong_spender_pub_key
      else if hash160 c oraclePubKey \<noteq> replicate 20 0x00 then Inl Wrong_oracle_pub_key
      else if \<not> verifySig c (hashInt c this action) oracleSig (pubKey2Point c oraclePubKey)
        then Inl Oracle_sig_invalid
      else if \<not> checkSig c spenderSig spenderPubKey then Inl Spender_sig_invalid
      else Inr ())"
  by (simp add: spend_def load_addresses_cases)

text \<open>
  Claim C3 says that \<open>spend\<close> rejects every action code outside \<open>{0, 1, 2, 3}\<close> as an
  invalid action, whatever the other inputs are and before any identity or signature
  check. The method does not: with the action code 7 on the concrete instance the pair
  loaded is twenty zero bytes twice, the spender identity check is evaluated, and the
  failure is the one of that check. The result depends on the other inputs: with a
  key hash that is twenty zero bytes for every key, the same call passes all four
  checks and succeeds.
\<close>

theorem spend_invalid_action_falls_through:
  "load_addresses demo_escrow 7 = (replicate 20 0x00, replicate 20 0x00)
   \<and> spend demo_externals demo_escrow buyerPubKey buyerPubKey
        (demo_stamp demo_escrow 7 sellerPubKey) sellerPubKey 7 = Inl Wrong_spender_pub_key
   \<and> spend zero_hash_externals demo_escrow buyerPubKey buyerPubKey
        (Signature (hashInt zero_hash_externals demo_escrow 7)
           (pt_x (pubKey2Point zero_hash_externals sellerPubKey)))
        sellerPubKey 7 = Inr ()"
proof -
  have n: "(7::int) \<notin> {0, 1, 2, 3}"
    by simp
  have l: "load_addresses demo_escrow 7 = (replicate 20 0x00, replicate 20 0x00)"
    by (simp add: load_addresses_cases)
  have h: "hash160 demo_externals buyerPubKey \<noteq> replicate 20 0x00"
    by code_simp
  have s1: "spend demo_externals demo_escrow buyerPubKey buyerPubKey
        (demo_stamp demo_escrow 7 sellerPubKey) sellerPubKey 7 = Inl Wrong_spender_pub_key"
    using h by (simp add: spend_outside_table [OF n])
  have s2: "spend zero_hash_externals demo_escrow buyerPubKey buyerPubKey
        (Signature (hashInt zero_hash_externals demo_escrow 7)
           (pt_x (pubKey2Point zero_hash_externals sellerPubKey)))
        sellerPubKey 7 = Inr ()"
    by (simp add: spend_outside_table [OF n])
      (simp add: zero_hash_externals_def demo_externals_def)
  from l s1 s2 show ?thesis
    by simp
qed

section \<open>Stamps and distinct escrows\<close>

text \<open>
  Claim C4 says that a stamp made for one instance is not accepted by an instance with
  another nonce, because the oracle messages of distinct nonces differ for all valid
  actions. The method does not ensure it. For every instance \<open>Y\<close>, the instance with
  the nonce of \<open>Y\<close> followed by the byte 01 has, for action 0, the oracle message of
  \<open>Y\<close> for action 1; so the integers are equal for every hash, and every verifier
  gives the same answer for both. On the concrete instances, whose nonces are
  \<^verbatim>\<open>001122334455aabbcc01\<close> and \<^verbatim>\<open>001122334455aabbcc\<close>, the stamp the owner of
  \<open>arbiterPubKey\<close> made as seller of the first for ReleaseBySeller is accepted by the
  second, where that party is the arbiter, for ReleaseByArbiter.
\<close>

theorem oracle_stamp_replay_across_escrows:
  "oracleMsg (Y\<lparr>escrowNonce := escrowNonce Y @ [0x01]\<rparr>) 0 = oracleMsg Y 1
   \<and> hashInt c (Y\<lparr>escrowNonce := escrowNonce Y @ [0x01]\<rparr>) 0 = hashInt c Y 1
   \<and> verifySig c (hashInt c (Y\<lparr>escrowNonce := escrowNonce Y @ [0x01]\<rparr>) 0) oracleSig pt
       = verifySig c (hashInt c Y 1) oracleSig pt
   \<and> escrowNonce longer_escrow \<noteq> escrowNonce demo_escrow
   \<and> oracleMsg longer_escrow 0 = oracleMsg demo_escrow 1
   \<and> hashInt demo_externals longer_escrow 0 = hashInt demo_externals demo_escrow 1
   \<and> spend demo_externals longer_escrow buyerPubKey buyerPubKey
        (demo_stamp longer_escrow 0 arbiterPubKey) arbiterPubKey 0 = Inr ()
   \<and> spend demo_externals demo_escrow buyerPubKey buyerPubKey
        (demo_stamp longer_escrow 0 arbiterPubKey) arbiterPubKey 1 = Inr ()"
proof -
  have m: "oracleMsg (Y\<lparr>escrowNonce := escrowNonce Y @ [0x01]\<rparr>) 0 = oracleMsg Y 1"
    by (simp add: oracleMsg_def int2ByteString_codes)
  then have i: "hashInt c (Y\<lparr>escrowNonce := escrowNonce Y @ [0x01]\<rparr>) 0 = hashInt c Y 1"
    by (simp add: hashInt_def)
  have e: "escrowNonce longer_escrow \<noteq> escrowNonce demo_escrow
   \<and> oracleMsg longer_escrow 0 = oracleMsg demo_escrow 1
   \<and> hashInt demo_externals longer_escrow 0 = hashInt demo_externals demo_escrow 1
   \<and> spend demo_externals longer_escrow buyerPubKey buyerPubKey
        (demo_stamp longer_escrow 0 arbiterPubKey) arbiterPubKey 0 = Inr ()
   \<and> spend demo_externals demo_escrow buyerPubKey buyerPubKey
        (demo_stamp longer_escrow 0 arbiterPubKey) arbiterPubKey 1 = Inr ()"
    by code_simp
  from m i e show ?thesis
    by simp
qed

section \<open>Stamps and distinct actions\<close>




section \<open>The encoding of the oracle message\<close>

text \<open>
  Claim C6, as amended. The oracle message is the nonce followed by the minimal
  encoding of the action code: nothing for ReleaseBySeller (0) and the single byte 01,
  02, 03 for the other three actions. For the nonce \<^verbatim>\<open>001122334455aabbcc\<close> and the
  action ReleaseBySeller the message is the nine bytes of the nonce; for
  ReleaseByArbiter it is the nonce followed by the byte 01.
\<close>

theorem oracle_message_encoding:
  "oracleMsg this action = escrowNonce this @ int2ByteString action
   \<and> int2ByteString RELEASE_BY_SELLER = []
   \<and> int2ByteString RELEASE_BY_ARBITER = [0x01]
   \<and> int2ByteString RETURN_BY_BUYER = [0x02]
   \<and> int2ByteString RETURN_BY_ARBITER = [0x03]
   \<and> oracleMsg (new_BlindEscrow sellerHash buyerHash arbiterHash test_nonce) RELEASE_BY_SELLER
       = [0x00, 0x11, 0x22, 0x33, 0x44, 0x55, 0xAA, 0xBB, 0xCC]
   \<and> oracleMsg (new_BlindEscrow sellerHash buyerHash arbiterHash test_nonce) RELEASE_BY_ARBITER
       = [0x00, 0x11, 0x22, 0x33, 0x44, 0x55, 0xAA, 0xBB, 0xCC, 0x01]"
  by (simp add: oracleMsg_def int2ByteString_codes RELEASE_BY_SELLER_def RELEASE_BY_ARBITER_def
      RETURN_BY_BUYER_def RETURN_BY_ARBITER_def new_BlindEscrow_def test_nonce_def)

text \<open>
  The claim as stated fails: for that nonce and action 0 the message is not the nonce
  followed by a byte 00, and the encodings of the actions 0 and 1 have different
  lengths.
\<close>

theorem oracle_message_encoding_counterexample:
  "oracleMsg demo_escrow RELEASE_BY_SELLER \<noteq> test_nonce @ [0x00]
   \<and> oracleMsg demo_escrow RELEASE_BY_SELLER = test_nonce
   \<and> length (int2ByteString RELEASE_BY_SELLER) \<noteq> length (int2ByteString RELEASE_BY_ARBITER)"
  by (simp add: oracleMsg_def int2ByteString_codes RELEASE_BY_SELLER_def RELEASE_BY_ARBITER_def
      demo_escrow_def new_BlindEscrow_def)

section \<open>The identity checks\<close>

text \<open>
  Claim C7. For a valid action, whose pair of required hashes is
  \<open>(spender, oracle)\<close>: \<open>spend\<close> fails with the spender identity error
  (\<open>Wrong_spender_pub_key\<close>) exactly when the hash of the spender public key is not
  \<open>spender\<close>, and with the oracle identity error (\<open>Wrong_oracle_pub_key\<close>) exactly
  when the spender hash matches and the hash of the oracle public key is not \<open>oracle\<close>.
  So the right keys in swapped roles, when the two required hashes differ, fail at the
  spender identity check and do not succeed.
\<close>

theorem spend_identity_checks:
  assumes "action \<in> {0, 1, 2, 3}" and "load_addresses this action = (spender, oracle)"
  shows "(spend c this spenderSig spenderPubKey oracleSig oraclePubKey action
            = Inl Wrong_spender_pub_key
          \<longleftrightarrow> hash160 c spenderPubKey \<noteq> spender)
       \<and> (spend c this spenderSig spenderPubKey oracleSig oraclePubKey action
            = Inl Wrong_oracle_pub_key
          \<longleftrightarrow> hash160 c spenderPubKey = spender \<and> hash160 c oraclePubKey \<noteq> oracle)
       \<and> (spender \<noteq> oracle \<and> hash160 c spenderPubKey = spender \<and> hash160 c oraclePubKey = oracle
          \<longrightarrow> spend c this spenderSig oraclePubKey oracleSig spenderPubKey action
                = Inl Wrong_spender_pub_key
            \<and> spend c this spenderSig oraclePubKey oracleSig spenderPubKey action \<noteq> Inr ())"
  using assms(2) by (simp add: spend_def)

text \<open>
  On the concrete instance with action 0: buyer and seller keys swapped, and the
  arbiter key in the place of the seller key.
\<close>

theorem spend_identity_checks_witness:
  "load_addresses demo_escrow 0 = (buyer demo_escrow, seller demo_escrow)
   \<and> buyer demo_escrow \<noteq> seller demo_escrow
   \<and> spend demo_externals demo_escrow buyerPubKey sellerPubKey
        (demo_stamp demo_escrow 0 sellerPubKey) buyerPubKey 0 = Inl Wrong_spender_pub_key
   \<and> spend demo_externals demo_escrow buyerPubKey buyerPubKey
        (demo_stamp demo_escrow 0 sellerPubKey) arbiterPubKey 0 = Inl Wrong_oracle_pub_key"
proof -
  have v: "(0::int) \<in> {0, 1, 2, 3}"
    by simp
  have l: "load_addresses demo_escrow 0 = (buyer demo_escrow, seller demo_escrow)"
    by (simp add: load_addresses_cases)
  have d: "buyer demo_escrow \<noteq> seller demo_escrow"
    by code_simp
  have hb: "hash160 demo_externals buyerPubKey = buyer demo_escrow"
    and hs: "hash160 demo_externals sellerPubKey = seller demo_escrow"
    by (simp_all add: demo_escrow_def new_BlindEscrow_def)
  have ha: "hash160 demo_externals arbiterPubKey \<noteq> seller demo_escrow"
    by code_simp
  note swapped = spend_identity_checks [OF v l, of demo_externals buyerPubKey buyerPubKey
      "demo_stamp demo_escrow 0 sellerPubKey" sellerPubKey]
  note wrong = spend_identity_checks [OF v l, of demo_externals buyerPubKey buyerPubKey
      "demo_stamp demo_escrow 0 sellerPubKey" arbiterPubKey]
  from swapped wrong show ?thesis
    using l d hb hs ha by simp
qed

section \<open>The integer of the oracle signature\<close>

text \<open>
  Claim C8. The integer the oracle signature is verified against is
  \<open>byteString2Int\<close> of the double hash of the oracle message, reversed, with one zero
  byte appended, for every nonce and action; \<open>spend\<close> passes exactly this integer to
  the verifier once the identity checks have passed. The integer is the unsigned
  big-endian value of the digest, so it lies between 0 and \<open>2 ^ 256\<close> for a digest of 32
  bytes.
\<close>

theorem oracle_hash_integer:
  "hashInt c this action
     = byteString2Int (rev (hash256 c (escrowNonce this @ int2ByteString action)) @ [0x00])
   \<and> hashInt c this action = be_value (hash256 c (oracleMsg this action))
   \<and> (length (hash256 c (oracleMsg this action)) = 32
        \<longrightarrow> 0 \<le> hashInt c this action \<and> hashInt c this action < 2 ^ 256)
   \<and> (load_addresses this action = (spender, oracle)
        \<and> hash160 c spenderPubKey = spender \<and> hash160 c oraclePubKey = oracle
        \<longrightarrow> spend c this spenderSig spenderPubKey oracleSig oraclePubKey action =
             (if verifySig c
                   (byteString2Int
                      (rev (hash256 c (escrowNonce this @ int2ByteString action)) @ [0x00]))
                   oracleSig (pubKey2Point c oraclePubKey)
              then (if checkSig c spenderSig spenderPubKey then Inr ()
                    else Inl Spender_sig_invalid)
              else Inl Oracle_sig_invalid))"
proof (intro conjI impI)
  show e: "hashInt c this action
     = byteString2Int (rev (hash256 c (escrowNonce this @ int2ByteString action)) @ [0x00])"
    by (simp add: hashInt_def reverseByteString_def oracleMsg_def)
  show "hashInt c this action = be_value (hash256 c (oracleMsg this action))"
    by (rule hashInt_be_value)
  show "spend c this spenderSig spenderPubKey oracleSig oraclePubKey action =
             (if verifySig c
                   (byteString2Int
                      (rev (hash256 c (escrowNonce this @ int2ByteString action)) @ [0x00]))
                   oracleSig (pubKey2Point c oraclePubKey)
              then (if checkSig c spenderSig spenderPubKey then Inr ()
                    else Inl Spender_sig_invalid)
              else Inl Oracle_sig_invalid)"
    if "load_addresses this action = (spender, oracle)
        \<and> hash160 c spenderPubKey = spender \<and> hash160 c oraclePubKey = oracle"
    using that by (simp add: spend_def e [symmetric])
next
  assume l: "length (hash256 c (oracleMsg this action)) = 32"
  have v: "hashInt c this action = le_value (rev (hash256 c (oracleMsg this action)))"
    by (simp add: hashInt_be_value le_value_rev)
  have "(256::int) ^ 32 = 2 ^ 256"
    by simp
  with le_value_bound [of "rev (hash256 c (oracleMsg this action))"] l
  show "0 \<le> hashInt c this action" and "hashInt c this action < 2 ^ 256"
    by (simp_all add: v)
qed

text \<open>
  On the concrete instance the digest of the stand-in hash is the nonce padded with
  zero bytes; a stamp for this integer is accepted and a stamp for the integer 5 is
  not.
\<close>

theorem oracle_hash_integer_witness:
  "length (hash256 demo_externals (oracleMsg demo_escrow 0)) = 32
   \<and> hashInt demo_externals demo_escrow 0
       = 0x001122334455AABBCC0000000000000000000000000000000000000000000000
   \<and> 0 \<le> hashInt demo_externals demo_escrow 0
   \<and> hashInt demo_externals demo_escrow 0 < 2 ^ 256
   \<and> spend demo_externals demo_escrow buyerPubKey buyerPubKey
        (demo_stamp demo_escrow 0 sellerPubKey) sellerPubKey 0 = Inr ()
   \<and> spend demo_externals demo_escrow buyerPubKey buyerPubKey
        (Signature 5 (pt_x (pubKey2Point demo_externals sellerPubKey))) sellerPubKey 0
       = Inl Oracle_sig_invalid"
proof -
  have l: "length (hash256 demo_externals (oracleMsg demo_escrow 0)) = 32"
    by (rule demo_hash256_length)
  have n: "hashInt demo_externals demo_escrow 0
       = 0x001122334455AABBCC0000000000000000000000000000000000000000000000"
    by code_simp
  have r: "load_addresses demo_escrow 0 = (buyer demo_escrow, seller demo_escrow)"
    by (simp add: load_addresses_cases)
  have hb: "hash160 demo_externals buyerPubKey = buyer demo_escrow"
    and hs: "hash160 demo_externals sellerPubKey = seller demo_escrow"
    by (simp_all add: demo_escrow_def new_BlindEscrow_def)
  have s1: "spend demo_externals demo_escrow buyerPubKey buyerPubKey
        (demo_stamp demo_escrow 0 sellerPubKey) sellerPubKey 0 = Inr ()"
    by code_simp
  have s2: "spend demo_externals demo_escrow buyerPubKey buyerPubKey
        (Signature 5 (pt_x (pubKey2Point demo_externals sellerPubKey))) sellerPubKey 0
       = Inl Oracle_sig_invalid"
    by code_simp
  note t = oracle_hash_integer [of demo_externals demo_escrow 0 "buyer demo_escrow"
      "seller demo_escrow" buyerPubKey sellerPubKey buyerPubKey
      "demo_stamp demo_escrow 0 sellerPubKey"]
  from t l have "0 \<le> hashInt demo_externals demo_escrow 0"
    and "hashInt demo_externals demo_escrow 0 < 2 ^ 256"
    by simp_all
  with l n s1 s2 show ?thesis
    by simp
qed

section \<open>The fields are never modified\<close>

text \<open>
  Claim C9. A call of any public method (\<open>buyCrops\<close>, \<open>sellCrops\<close>, \<open>spend\<close>), with
  any arguments and any result, leaves the four fields equal to the values the
  constructor was given.
\<close>

theorem fields_never_modified:
  "seller (snd (invoke c (new_BlindEscrow sellerHash buyerHash arbiterHash nonce) request))
     = sellerHash
   \<and> buyer (snd (invoke c (new_BlindEscrow sellerHash buyerHash arbiterHash nonce) request))
     = buyerHash
   \<and> arbiter (snd (invoke c (new_BlindEscrow sellerHash buyerHash arbiterHash nonce) request))
     = arbiterHash
   \<and> escrowNonce (snd (invoke c (new_BlindEscrow sellerHash buyerHash arbiterHash nonce) request))
     = nonce
   \<and> snd (invoke c this request) = this"
  by (cases request) (simp_all add: new_BlindEscrow_def)

section \<open>The methods buyCrops and sellCrops\<close>

text \<open>
  Claim C10. Each of \<open>buyCrops\<close> and \<open>sellCrops\<close> succeeds exactly when the double
  hash of its argument is the argument itself. A digest has 32 bytes, so both fail for
  every argument of another length.
\<close>

theorem crops_fixed_point:
  "(buyCrops c this crops = Inr () \<longleftrightarrow> hash256 c crops = crops)
   \<and> (sellCrops c this crops = Inr () \<longleftrightarrow> hash256 c crops = crops)
   \<and> (length (hash256 c crops) = 32 \<and> length crops \<noteq> 32
        \<longrightarrow> buyCrops c this crops = Inl Incorrect_type
          \<and> sellCrops c this crops = Inl Incorrect_price)"
  by (auto simp: buyCrops_def sellCrops_def)

text \<open>
  An argument of three bytes is rejected by both methods; the stand-in hash has the
  fixed point of 32 zero bytes, which \<open>buyCrops\<close> accepts.
\<close>

theorem crops_fixed_point_witness:
  "length (hash256 demo_externals [0x01, 0x02, 0x03]) = 32
   \<and> length [0x01, 0x02, 0x03 :: byte] \<noteq> 32
   \<and> buyCrops demo_externals demo_escrow [0x01, 0x02, 0x03] = Inl Incorrect_type
   \<and> sellCrops demo_externals demo_escrow [0x01, 0x02, 0x03] = Inl Incorrect_price
   \<and> buyCrops demo_externals demo_escrow (replicate 32 0x00) = Inr ()"
proof -
  have l: "length (hash256 demo_externals [0x01, 0x02, 0x03]) = 32"
    by (rule demo_hash256_length)
  have n: "length [0x01, 0x02, 0x03 :: byte] \<noteq> 32"
    by simp
  have f: "hash256 demo_externals (replicate 32 0x00) = replicate 32 0x00"
    by (simp add: demo_externals_def)
  from crops_fixed_point [of demo_externals demo_escrow "[0x01, 0x02, 0x03]"]
    crops_fixed_point [of demo_externals demo_escrow "replicate 32 0x00"] l n f
  show ?thesis
    by simp
qed

end
